theory Spec2Isabelle
  imports Complex_Main "HOL-Library.AList" "HOL-Library.Sublist" "HOL-Library.Char_ord"
    "HOL-Library.List_Lexorder" "HOL-Library.Log_Nat"
begin

section \<open>The time-expiring cache\<close>

text \<open>
  Both modules keep a module-level cache: \<^verbatim>\<open>cache = TTLCache(maxsize=100, ttl=300)\<close> in
  nlp_utils.py and \<^verbatim>\<open>news_cache = TTLCache(maxsize=100, ttl=1800)\<close> in api_utils.py.
  The class comes from a library that is not part of the sources, so the cache is written
  down from the specification (sections 3 and 4.1): an entry holds a key, a value and its
  insertion time; capacity and time-to-live are fixed at construction; an entry is a miss
  once its time-to-live has elapsed; on overflow the least recently used entry is evicted.

  The clock is a natural number of seconds. A call of an operation of the repository reads
  the clock once: the membership test \<^verbatim>\<open>key in cache\<close> and the read \<^verbatim>\<open>cache[key]\<close> that
  follows it see the same time.
\<close>

text \<open>
  Modelled from the spec: the cache entry of section 3 (key, value, insertion time).
\<close>

type_synonym ('k, 'v) cache_entry = "'k \<times> 'v \<times> nat"

text \<open>
  Modelled from the spec: the cache of section 4.1, with the capacity and the time-to-live
  fixed at construction. The list of entries runs from the least recently used entry to
  the most recently used one.
\<close>

record ('k, 'v) ttl_cache =
  maxsize :: nat
  ttl :: nat
  entries :: "('k, 'v) cache_entry list"

text \<open>Modelled from the spec: the construction of an empty cache.\<close>

definition TTLCache :: "nat \<Rightarrow> nat \<Rightarrow> ('k, 'v) ttl_cache" where
  "TTLCache m t = \<lparr>maxsize = m, ttl = t, entries = []\<rparr>"

text \<open>Modelled from the spec: an entry is live until its time-to-live has elapsed.\<close>

definition live :: "nat \<Rightarrow> nat \<Rightarrow> ('k, 'v) cache_entry \<Rightarrow> bool" where
  "live life now e = (now < snd (snd e) + life)"

text \<open>Modelled from the spec: the entry stored under a key, if any.\<close>

fun find_entry :: "'k \<Rightarrow> ('k, 'v) cache_entry list \<Rightarrow> ('k, 'v) cache_entry option" where
  "find_entry k [] = None"
| "find_entry k (e # es) = (if fst e = k then Some e else find_entry k es)"

text \<open>
  Modelled from the spec: \<^verbatim>\<open>get(key) -> value or miss\<close>. \<open>None\<close> is the miss: the key
  was never stored, was evicted, or its entry has expired.
\<close>

definition cache_get :: "('k, 'v) ttl_cache \<Rightarrow> nat \<Rightarrow> 'k \<Rightarrow> 'v option" where
  "cache_get c now k =
     (case find_entry k (entries c) of
        None \<Rightarrow> None
      | Some e \<Rightarrow> if live (ttl c) now e then Some (fst (snd e)) else None)"

text \<open>
  Modelled from the spec: a read makes its entry the most recently used one (the cache is
  a least-recently-used map).
\<close>

definition cache_touch :: "('k, 'v) ttl_cache \<Rightarrow> 'k \<Rightarrow> ('k, 'v) ttl_cache" where
  "cache_touch c k =
     (case find_entry k (entries c) of
        None \<Rightarrow> c
      | Some e \<Rightarrow> c\<lparr>entries := filter (\<lambda>x. fst x \<noteq> k) (entries c) @ [e]\<rparr>)"

text \<open>
  Modelled from the spec: eviction on overflow. While there are more entries than the
  capacity, the least recently used entry is dropped.
\<close>

fun evict :: "nat \<Rightarrow> ('k, 'v) cache_entry list \<Rightarrow> ('k, 'v) cache_entry list" where
  "evict m [] = []"
| "evict m (e # es) = (if m < length (e # es) then evict m es else e # es)"

text \<open>
  Modelled from the spec: \<^verbatim>\<open>put(key, value)\<close>. Expired entries are removed first, and
  so is an entry already stored under the key. The new entry carries the current time and
  is the most recently used one; then the capacity is enforced by eviction.
\<close>

definition cache_put :: "('k, 'v) ttl_cache \<Rightarrow> nat \<Rightarrow> 'k \<Rightarrow> 'v \<Rightarrow> ('k, 'v) ttl_cache" where
  "cache_put c now k v =
     (let es = filter (live (ttl c) now) (entries c);
          es' = filter (\<lambda>x. fst x \<noteq> k) es
      in c\<lparr>entries := evict (maxsize c) (es' @ [(k, v, now)])\<rparr>)"

section \<open>Python values\<close>

text \<open>
  The values that the operations store in the cache, return, and read from or write to an
  article or a response: \<^verbatim>\<open>None\<close>, booleans, strings, integers, floats, lists, tuples
  and dictionaries with string keys. A dictionary is an association list in insertion
  order; \<open>AList.update\<close> is the assignment \<^verbatim>\<open>d[k] = v\<close> (replace in place, or append a
  new key).
\<close>

datatype pyval =
    PNone
  | PBool bool
  | PStr string
  | PInt int
  | PFloat real
  | PList "pyval list"
  | PTuple "pyval list"
  | PDict "(string \<times> pyval) list"

text \<open>
  The exceptions that the operations raise or catch. \<open>IntegrityError\<close>,
  \<open>OperationalError\<close> and \<open>InterfaceError\<close> are \<^verbatim>\<open>sqlite3.Error\<close>: a violated constraint,
  any other failure of the database (it cannot be opened, it is locked, the disk fails),
  and a parameter that cannot be bound. \<open>OtherError\<close> is any exception of the HTTP
  library that is not a \<^verbatim>\<open>RequestException\<close>.
\<close>

datatype error =
    IntegrityError | OperationalError | InterfaceError
  | IndexError | KeyError | AttributeError | TypeError | ValueError | OtherError

text \<open>Truth value of a Python object, as \<^verbatim>\<open>if x:\<close> tests it.\<close>

fun truthy :: "pyval \<Rightarrow> bool" where
  "truthy PNone = False"
| "truthy (PBool b) = b"
| "truthy (PStr s) = (s \<noteq> [])"
| "truthy (PInt i) = (i \<noteq> 0)"
| "truthy (PFloat x) = (x \<noteq> 0)"
| "truthy (PList xs) = (xs \<noteq> [])"
| "truthy (PTuple xs) = (xs \<noteq> [])"
| "truthy (PDict d) = (d \<noteq> [])"

text \<open>
  The elements that \<^verbatim>\<open>for x in v\<close> runs through: the elements of a list or tuple, the
  characters of a string, the keys of a dictionary. Other values are not iterable.
\<close>

fun py_iter :: "pyval \<Rightarrow> error + pyval list" where
  "py_iter (PList xs) = Inr xs"
| "py_iter (PTuple xs) = Inr xs"
| "py_iter (PStr s) = Inr (map (\<lambda>ch. PStr [ch]) s)"
| "py_iter (PDict d) = Inr (map (\<lambda>e. PStr (fst e)) d)"
| "py_iter v = Inl TypeError"


text \<open>\<^verbatim>\<open>d.get(k, default)\<close> on a dictionary.\<close>

definition dict_get :: "(string \<times> pyval) list \<Rightarrow> string \<Rightarrow> pyval \<Rightarrow> pyval" where
  "dict_get d k dflt = (case map_of d k of None \<Rightarrow> dflt | Some v \<Rightarrow> v)"

text \<open>Decimal notation of an integer, as \<^verbatim>\<open>str\<close> and f-strings print it.\<close>

definition digit_char :: "nat \<Rightarrow> char" where
  "digit_char d = char_of (48 + d)"

fun str_nat :: "nat \<Rightarrow> string" where
  "str_nat n = (if n < 10 then [digit_char n] else str_nat (n div 10) @ [digit_char (n mod 10)])"

declare str_nat.simps [simp del]

definition str_int :: "int \<Rightarrow> string" where
  "str_int i = (if i < 0 then CHR ''-'' # str_nat (nat (- i)) else str_nat (nat i))"


text \<open>A chart or word-cloud object of the plotting libraries, known by a description.\<close>

datatype chart = Chart string

section \<open>Double-precision arithmetic\<close>

text \<open>
  The floats of \<^verbatim>\<open>compute_text_similarity\<close> are IEEE doubles. A double is the rational
  number it stands for; \<open>fl\<close> rounds a rational to the nearest number with a 53-bit
  significand, ties to the even significand. Only the normal range is modelled: no
  overflow, no subnormal numbers, no infinities and no NaN.
\<close>

type_synonym double = rat

definition pow2 :: "int \<Rightarrow> rat" where
  "pow2 e = (if 0 \<le> e then 2 ^ nat e else 1 / 2 ^ nat (- e))"

text \<open>The exponent \<open>e\<close> of a nonzero rational \<open>q\<close>: the power of two \<open>pow2 e\<close> is
  at most \<open>|q|\<close>, which is less than \<open>pow2 (e + 1)\<close>.\<close>

definition exponent :: "rat \<Rightarrow> int" where
  "exponent q =
     (let k = bitlen (fst (quotient_of \<bar>q\<bar>)) - bitlen (snd (quotient_of \<bar>q\<bar>))
      in if pow2 k \<le> \<bar>q\<bar> then k else k - 1)"

definition round_half_even :: "rat \<Rightarrow> int" where
  "round_half_even q =
     (let f = \<lfloor>q\<rfloor>; r = q - of_int f
      in if r < 1 / 2 then f else if 1 / 2 < r then f + 1 else if even f then f else f + 1)"

definition fl :: "rat \<Rightarrow> double" where
  "fl q =
     (if q = 0 then 0
      else let u = pow2 (exponent q - 52) in of_int (round_half_even (q / u)) * u)"




section \<open>The NLP processor (nlp_utils.py)\<close>

text \<open>
  The external models are parameters of the embedding. \<open>None\<close> stands for a call that
  raises an exception.
  \<^item> \<open>hash\<close> is Python's \<^verbatim>\<open>hash\<close> on the text;
  \<^item> \<open>polarity\<close> is \<^verbatim>\<open>TextBlob(str(text)).sentiment.polarity\<close>; the score is a real
    number and the thresholds are the literals of the source;
  \<^item> \<open>nlp\<close> is the spaCy pipeline, giving the tokens and the entities of a text;
  \<^item> \<open>article_summary\<close> is the download, parse and summary of the page at a URL;
  \<^item> \<open>translate text lang\<close> is \<^verbatim>\<open>translator.translate(text, dest=lang).text\<close>;
  \<^item> \<open>wordcloud\<close> is \<^verbatim>\<open>WordCloud(...).generate(text)\<close> with the options of the processor;
  \<^item> \<open>fit_transform text1 text2\<close> is \<^verbatim>\<open>self.vectorizer.fit_transform([text1, text2])\<close>:
    the two rows of the tf-idf matrix, entry by entry;
  \<^item> \<open>lower\<close> is \<^verbatim>\<open>str.lower\<close>;
  \<^item> \<open>py_repr\<close> is what an f-string prints for a float, a list, a tuple or a dictionary.
\<close>

record token =
  token_text :: string
  is_stop :: bool
  is_punct :: bool
  is_alpha :: bool

record doc =
  tokens :: "token list"
  ents :: "(string \<times> string) list"

record nlp_env =
  hash :: "string \<Rightarrow> int"
  polarity :: "string \<Rightarrow> real option"
  nlp :: "string \<Rightarrow> doc option"
  article_summary :: "pyval \<Rightarrow> string option"
  translate :: "string \<Rightarrow> string \<Rightarrow> string option"
  wordcloud :: "string \<Rightarrow> chart option"
  fit_transform :: "string \<Rightarrow> string \<Rightarrow> (double list \<times> double list) option"
  lower :: "string \<Rightarrow> string"
  py_repr :: "pyval \<Rightarrow> string"

type_synonym nlp_cache = "(string, pyval) ttl_cache"

text \<open>\<^verbatim>\<open>cache = TTLCache(maxsize=100, ttl=300)\<close>\<close>

definition cache :: nlp_cache where
  "cache = TTLCache 100 300"

text \<open>
  \<^verbatim>\<open>analyze_sentiment(self, text)\<close>. The text is \<open>None\<close> when it is missing. The
  result comes with the list of texts passed to the polarity scorer during the call and
  with the cache after the call.
\<close>

definition analyze_sentiment ::
    "nlp_env \<Rightarrow> nat \<Rightarrow> nlp_cache \<Rightarrow> string option \<Rightarrow> pyval \<times> string list \<times> nlp_cache" where
  "analyze_sentiment env now c text =
     (case text of
        None \<Rightarrow> (PStr ''neutral'', [], c)
      | Some t \<Rightarrow>
          if t = [] then (PStr ''neutral'', [], c)
          else
            let cache_key = ''sentiment_'' @ str_int (hash env t) in
            (case cache_get c now cache_key of
               Some v \<Rightarrow> (v, [], cache_touch c cache_key)
             | None \<Rightarrow>
                 (case polarity env t of
                    None \<Rightarrow> (PStr ''neutral'', [t], c)
                  | Some p \<Rightarrow>
                      let result = (if p > 0.1 then ''positive''
                                    else if p < - 0.1 then ''negative''
                                    else ''neutral'')
                      in (PStr result, [t], cache_put c now cache_key (PStr result)))))"

text \<open>\<^verbatim>\<open>Counter(keywords)\<close>: the distinct words in order of first occurrence, with counts.\<close>

fun count_add :: "'a \<Rightarrow> ('a \<times> nat) list \<Rightarrow> ('a \<times> nat) list" where
  "count_add w [] = [(w, 1)]"
| "count_add w ((x, n) # xs) = (if x = w then (x, n + 1) # xs else (x, n) # count_add w xs)"

definition Counter :: "'a list \<Rightarrow> ('a \<times> nat) list" where
  "Counter ws = foldl (\<lambda>c w. count_add w c) [] ws"

text \<open>
  \<^verbatim>\<open>Counter.most_common(n)\<close> for an integer \<open>n\<close>: the \<open>n\<close> entries with the largest
  counts, largest first, entries with equal counts in order of first occurrence; no entry
  when \<open>n\<close> is zero or negative.
\<close>

definition most_common :: "int \<Rightarrow> ('a \<times> nat) list \<Rightarrow> ('a \<times> nat) list" where
  "most_common n c = (if n \<le> 0 then [] else take (nat n) (sort_key (\<lambda>e. - int (snd e)) c))"

text \<open>A list of (string, integer) tuples and a list of (string, string) tuples as Python values.\<close>

definition py_counts :: "(string \<times> nat) list \<Rightarrow> pyval" where
  "py_counts xs = PList (map (\<lambda>e. PTuple [PStr (fst e), PInt (int (snd e))]) xs)"

definition py_pairs :: "(string \<times> string) list \<Rightarrow> pyval" where
  "py_pairs xs = PList (map (\<lambda>e. PTuple [PStr (fst e), PStr (snd e)]) xs)"

text \<open>The list comprehension of \<^verbatim>\<open>extract_keywords\<close>.\<close>

definition keyword_tokens :: "nlp_env \<Rightarrow> doc \<Rightarrow> string list" where
  "keyword_tokens env d =
     map (\<lambda>tok. lower env (token_text tok))
       (filter (\<lambda>tok. \<not> is_stop tok \<and> \<not> is_punct tok \<and> is_alpha tok) (tokens d))"

text \<open>\<^verbatim>\<open>extract_keywords(self, text, top_n=10)\<close>\<close>

definition extract_keywords ::
    "nlp_env \<Rightarrow> nat \<Rightarrow> nlp_cache \<Rightarrow> string option \<Rightarrow> int \<Rightarrow> pyval \<times> nlp_cache" where
  "extract_keywords env now c text top_n =
     (case text of
        None \<Rightarrow> (PList [], c)
      | Some t \<Rightarrow>
          if t = [] then (PList [], c)
          else
            let cache_key = ''keywords_'' @ str_int (hash env t) in
            (case cache_get c now cache_key of
               Some v \<Rightarrow> (v, cache_touch c cache_key)
             | None \<Rightarrow>
                 (case nlp env t of
                    None \<Rightarrow> (PList [], c)
                  | Some d \<Rightarrow>
                      let keywords = keyword_tokens env d;
                          freq_dist = Counter keywords;
                          top_keywords = py_counts (most_common top_n freq_dist)
                      in (top_keywords, cache_put c now cache_key top_keywords))))"

text \<open>What an f-string prints for a value.\<close>

definition py_format :: "nlp_env \<Rightarrow> pyval \<Rightarrow> string" where
  "py_format env v =
     (case v of
        PStr s \<Rightarrow> s
      | PNone \<Rightarrow> ''None''
      | PBool b \<Rightarrow> (if b then ''True'' else ''False'')
      | PInt i \<Rightarrow> str_int i
      | _ \<Rightarrow> py_repr env v)"

text \<open>
  \<^verbatim>\<open>summarize_article(self, url)\<close>. The result comes with the list of the pages that
  the call asks the extraction library to download, and with the cache after the call.
\<close>

definition summarize_article ::
    "nlp_env \<Rightarrow> nat \<Rightarrow> nlp_cache \<Rightarrow> pyval \<Rightarrow> pyval \<times> pyval list \<times> nlp_cache" where
  "summarize_article env now c url =
     (let cache_key = ''summary_'' @ py_format env url in
      case cache_get c now cache_key of
        Some v \<Rightarrow> (v, [], cache_touch c cache_key)
      | None \<Rightarrow>
          (case article_summary env url of
             None \<Rightarrow> (PNone, [url], c)
           | Some summary \<Rightarrow> (PStr summary, [url], cache_put c now cache_key (PStr summary))))"


text \<open>\<^verbatim>\<open>translate_text(self, text, target_lang='en')\<close>\<close>

definition translate_text ::
    "nlp_env \<Rightarrow> nat \<Rightarrow> nlp_cache \<Rightarrow> string option \<Rightarrow> string \<Rightarrow> pyval \<times> nlp_cache" where
  "translate_text env now c text target_lang =
     (case text of
        None \<Rightarrow> (PNone, c)
      | Some t \<Rightarrow>
          if t = [] \<or> target_lang = ''en'' then (PStr t, c)
          else
            let cache_key = ''trans_'' @ str_int (hash env t) @ ''_'' @ target_lang in
            (case cache_get c now cache_key of
               Some v \<Rightarrow> (v, cache_touch c cache_key)
             | None \<Rightarrow>
                 (case translate env t target_lang of
                    None \<Rightarrow> (PStr t, c)
                  | Some translation \<Rightarrow>
                      (PStr translation, cache_put c now cache_key (PStr translation)))))"

text \<open>\<^verbatim>\<open>get_named_entities(self, text)\<close>\<close>

definition get_named_entities ::
    "nlp_env \<Rightarrow> nat \<Rightarrow> nlp_cache \<Rightarrow> string option \<Rightarrow> pyval \<times> nlp_cache" where
  "get_named_entities env now c text =
     (case text of
        None \<Rightarrow> (PList [], c)
      | Some t \<Rightarrow>
          if t = [] then (PList [], c)
          else
            let cache_key = ''ner_'' @ str_int (hash env t) in
            (case cache_get c now cache_key of
               Some v \<Rightarrow> (v, cache_touch c cache_key)
             | None \<Rightarrow>
                 (case nlp env t of
                    None \<Rightarrow> (PList [], c)
                  | Some d \<Rightarrow>
                      let entities = py_pairs (ents d)
                      in (entities, cache_put c now cache_key entities))))"


section \<open>The news source client (api_utils.py)\<close>

type_synonym params = "(string \<times> pyval) list"
type_synonym request = "string \<times> params"
type_synonym news_cache = "(string, params) ttl_cache"
type_synonym datetime = nat

text \<open>
  What the three statements \<^verbatim>\<open>requests.get(url, params=params, timeout=10)\<close>,
  \<^verbatim>\<open>response.raise_for_status()\<close> and \<^verbatim>\<open>response.json()\<close> come to: a
  \<^verbatim>\<open>RequestException\<close> (no connection, timeout, an error status), another exception, or
  the JSON value of the body.
\<close>

datatype http_reply = RequestException | OtherFailure | Json pyval

text \<open>
  The client, its configuration and the libraries it calls.
  \<^item> \<open>http_get url params\<close> is the HTTP request and the decoding of its reply;
  \<^item> \<open>json_dumps\<close> is \<^verbatim>\<open>json.dumps\<close> on a dictionary whose keys are in the given order;
  \<^item> \<open>isoformat\<close> is \<^verbatim>\<open>datetime.isoformat\<close>.
\<close>

record api_env =
  api_key :: string
  base_url :: string
  http_get :: "string \<Rightarrow> params \<Rightarrow> http_reply"
  json_dumps :: "params \<Rightarrow> string"
  isoformat :: "datetime \<Rightarrow> string"

text \<open>\<^verbatim>\<open>news_cache = TTLCache(maxsize=100, ttl=1800)\<close>\<close>

definition news_cache :: news_cache where
  "news_cache = TTLCache 100 1800"

text \<open>
  The first two statements of \<^verbatim>\<open>_make_request\<close>: the parameters sent, and the cache key
  \<^verbatim>\<open>f"{endpoint}_{json.dumps(params, sort_keys=True)}"\<close>.
\<close>

definition request_params :: "api_env \<Rightarrow> params \<Rightarrow> params" where
  "request_params env params = AList.update ''apiKey'' (PStr (api_key env)) params"

definition request_key :: "api_env \<Rightarrow> string \<Rightarrow> params \<Rightarrow> string" where
  "request_key env endpoint params =
     endpoint @ ''_'' @ json_dumps env (sort_key fst (request_params env params))"

text \<open>
  \<^verbatim>\<open>_make_request(self, endpoint, params)\<close>. The result comes with the list of the
  requests sent to the news API during the call (URL and parameters) and with the response
  cache after it. Only a \<^verbatim>\<open>RequestException\<close> is caught; a body that is not a JSON object
  has no \<^verbatim>\<open>get\<close>.
\<close>

definition make_request ::
    "api_env \<Rightarrow> nat \<Rightarrow> news_cache \<Rightarrow> string \<Rightarrow> params
     \<Rightarrow> (error + params option) \<times> request list \<times> news_cache" where
  "make_request env now nc endpoint params =
     (let params' = request_params env params;
          cache_key = request_key env endpoint params
      in case cache_get nc now cache_key of
           Some data \<Rightarrow> (Inr (Some data), [], cache_touch nc cache_key)
         | None \<Rightarrow>
             (case http_get env (base_url env @ endpoint) params' of
                RequestException \<Rightarrow> (Inr None, [(base_url env @ endpoint, params')], nc)
              | OtherFailure \<Rightarrow> (Inl OtherError, [(base_url env @ endpoint, params')], nc)
              | Json (PDict data) \<Rightarrow>
                  if dict_get data ''status'' PNone = PStr ''ok''
                  then (Inr (Some data), [(base_url env @ endpoint, params')],
                        cache_put nc now cache_key data)
                  else (Inr None, [(base_url env @ endpoint, params')], nc)
              | Json _ \<Rightarrow> (Inl AttributeError, [(base_url env @ endpoint, params')], nc)))"

text \<open>
  The body of the loop of \<^verbatim>\<open>enrich_articles\<close>. An element that is not a dictionary has
  no \<^verbatim>\<open>get\<close>: the attribute error is caught and the element is appended as it is. The
  result comes with the pages that \<^verbatim>\<open>summarize_article\<close> asks to download.
\<close>

definition article_text :: "nlp_env \<Rightarrow> params \<Rightarrow> string" where
  "article_text env d =
     py_format env (dict_get d ''title'' (PStr [])) @ '' '' @
     py_format env (dict_get d ''description'' (PStr []))"

definition enrich_article ::
    "nlp_env \<Rightarrow> nat \<Rightarrow> nlp_cache \<Rightarrow> pyval \<Rightarrow> pyval \<times> pyval list \<times> nlp_cache" where
  "enrich_article env now c article =
     (case article of
        PDict d \<Rightarrow>
          let text = article_text env d;
              s = analyze_sentiment env now c (Some text);
              d1 = AList.update ''sentiment'' (fst s) d;
              k = extract_keywords env now (snd (snd s)) (Some text) 5;
              d2 = AList.update ''keywords'' (fst k) d1;
              e = get_named_entities env now (snd k) (Some text);
              d3 = AList.update ''named_entities'' (fst e) d2
          in if truthy (dict_get d3 ''url'' PNone)
             then let u = summarize_article env now (snd e) (dict_get d3 ''url'' PNone)
                  in (PDict (AList.update ''summary'' (fst u) d3), fst (snd u), snd (snd u))
             else (PDict d3, [], snd e)
      | _ \<Rightarrow> (article, [], c))"

text \<open>\<^verbatim>\<open>enrich_articles(self, articles)\<close>, on a list of articles.\<close>

fun enrich_articles ::
    "nlp_env \<Rightarrow> nat \<Rightarrow> nlp_cache \<Rightarrow> pyval list \<Rightarrow> pyval list \<times> pyval list \<times> nlp_cache" where
  "enrich_articles env now c [] = ([], [], c)"
| "enrich_articles env now c (article # rest) =
     (let a = enrich_article env now c article;
          r = enrich_articles env now (snd (snd a)) rest
      in (fst a # fst r, fst (snd a) @ fst (snd r), snd (snd r)))"

text \<open>\<^verbatim>\<open>if value: params[name] = value\<close>, for an optional string argument.\<close>

definition add_filter :: "string \<Rightarrow> string option \<Rightarrow> params \<Rightarrow> params" where
  "add_filter name v params =
     (case v of
        None \<Rightarrow> params
      | Some s \<Rightarrow> if s \<noteq> [] then AList.update name (PStr s) params else params)"

text \<open>
  The articles of a cached response are the objects that \<^verbatim>\<open>enrich_articles\<close> writes to:
  after the enrichment the cached response holds the enriched articles.
\<close>

definition cache_mutate :: "('k, 'v) ttl_cache \<Rightarrow> 'k \<Rightarrow> ('v \<Rightarrow> 'v) \<Rightarrow> ('k, 'v) ttl_cache" where
  "cache_mutate c k f =
     c\<lparr>entries := map (\<lambda>e. if fst e = k then (fst e, f (fst (snd e)), snd (snd e)) else e) (entries c)\<rparr>"

text \<open>
  What a call of \<^verbatim>\<open>get_top_headlines\<close> or \<^verbatim>\<open>search_everything\<close> comes to: the value
  returned or the exception raised, the requests sent to the news API, the pages asked
  for download, and the two caches after the call.
\<close>

record api_outcome =
  returned :: "error + pyval list"
  requests :: "request list"
  downloads :: "pyval list"
  news_cache_after :: news_cache
  cache_after :: nlp_cache

text \<open>
  The last four lines of \<^verbatim>\<open>get_top_headlines\<close> and of \<^verbatim>\<open>search_everything\<close>. The value
  under \<^verbatim>\<open>articles\<close> is iterated over, whatever it is.
\<close>

definition enrich_response ::
    "nlp_env \<Rightarrow> nat \<Rightarrow> nlp_cache \<Rightarrow> string
     \<Rightarrow> (error + params option) \<times> request list \<times> news_cache \<Rightarrow> api_outcome" where
  "enrich_response nenv now c cache_key r =
     (case fst r of
        Inl e \<Rightarrow>
          \<lparr>returned = Inl e, requests = fst (snd r), downloads = [],
           news_cache_after = snd (snd r), cache_after = c\<rparr>
      | Inr None \<Rightarrow>
          \<lparr>returned = Inr [], requests = fst (snd r), downloads = [],
           news_cache_after = snd (snd r), cache_after = c\<rparr>
      | Inr (Some response) \<Rightarrow>
          (case map_of response ''articles'' of
             None \<Rightarrow>
               \<lparr>returned = Inr [], requests = fst (snd r), downloads = [],
                news_cache_after = snd (snd r), cache_after = c\<rparr>
           | Some articles \<Rightarrow>
               (case py_iter articles of
                  Inl e \<Rightarrow>
                    \<lparr>returned = Inl e, requests = fst (snd r), downloads = [],
                     news_cache_after = snd (snd r), cache_after = c\<rparr>
                | Inr arts \<Rightarrow>
                    let en = enrich_articles nenv now c arts
                    in \<lparr>returned = Inr (fst en), requests = fst (snd r),
                        downloads = fst (snd en),
                        news_cache_after =
                          (case articles of
                             PList _ \<Rightarrow>
                               cache_mutate (snd (snd r)) cache_key
                                 (AList.update ''articles'' (PList (fst en)))
                           | _ \<Rightarrow> snd (snd r)),
                        cache_after = snd (snd en)\<rparr>)))"

text \<open>The parameters built by \<^verbatim>\<open>get_top_headlines\<close>.\<close>

definition headline_params ::
    "string option \<Rightarrow> string option \<Rightarrow> string option \<Rightarrow> int \<Rightarrow> int \<Rightarrow> params" where
  "headline_params country category q page_size page =
     add_filter ''q'' q
       (add_filter ''category'' category
         (add_filter ''country'' country
           [(''pageSize'', PInt (min page_size 100)), (''page'', PInt page)]))"

text \<open>\<^verbatim>\<open>get_top_headlines(self, country, category, q, page_size, page)\<close>\<close>

definition get_top_headlines ::
    "api_env \<Rightarrow> nlp_env \<Rightarrow> nat \<Rightarrow> news_cache \<Rightarrow> nlp_cache
     \<Rightarrow> string option \<Rightarrow> string option \<Rightarrow> string option \<Rightarrow> int \<Rightarrow> int \<Rightarrow> api_outcome" where
  "get_top_headlines env nenv now nc c country category q page_size page =
     (let params = headline_params country category q page_size page
      in enrich_response nenv now c (request_key env [] params)
           (make_request env now nc [] params))"

text \<open>The parameters built by \<^verbatim>\<open>search_everything\<close>.\<close>

definition add_date :: "api_env \<Rightarrow> string \<Rightarrow> datetime option \<Rightarrow> params \<Rightarrow> params" where
  "add_date env name v params =
     (case v of
        None \<Rightarrow> params
      | Some d \<Rightarrow> AList.update name (PStr (isoformat env d)) params)"

definition search_params ::
    "api_env \<Rightarrow> string \<Rightarrow> datetime option \<Rightarrow> datetime option \<Rightarrow> string \<Rightarrow> string \<Rightarrow> int \<Rightarrow> int
     \<Rightarrow> params" where
  "search_params env q from_date to_date language sort_by page_size page =
     add_date env ''to'' to_date
       (add_date env ''from'' from_date
         [(''q'', PStr q), (''language'', PStr language), (''sortBy'', PStr sort_by),
          (''pageSize'', PInt (min page_size 100)), (''page'', PInt page)])"

text \<open>\<^verbatim>\<open>search_everything(self, q, from_date, to_date, language, sort_by, page_size, page)\<close>\<close>

definition search_everything ::
    "api_env \<Rightarrow> nlp_env \<Rightarrow> nat \<Rightarrow> news_cache \<Rightarrow> nlp_cache
     \<Rightarrow> string \<Rightarrow> datetime option \<Rightarrow> datetime option \<Rightarrow> string \<Rightarrow> string \<Rightarrow> int \<Rightarrow> int
     \<Rightarrow> api_outcome" where
  "search_everything env nenv now nc c q from_date to_date language sort_by page_size page =
     (let params = search_params env q from_date to_date language sort_by page_size page
      in enrich_response nenv now c (request_key env ''/everything'' params)
           (make_request env now nc ''/everything'' params))"


section \<open>The persistence store (db_utils.py)\<close>

text \<open>A value of a column, as the driver hands it to Python.\<close>

datatype sqlval = SNull | SInt int | SReal real | SText string

text \<open>
  Modelled from the spec: a row of the table \<^verbatim>\<open>users(id, username, password, created_at)\<close>
  of section 6. The statements that create the tables are not among the sources.
\<close>

record user_row =
  user_id :: int
  username :: string
  password :: string
  created_at :: nat

text \<open>Modelled from the spec: a row of the table \<^verbatim>\<open>article_feedback\<close> of section 6.\<close>

record feedback_row =
  fb_user_id :: int
  article_url :: string
  feedback :: "string option"
  rating :: "int option"
  fb_timestamp :: nat

text \<open>
  Modelled from the spec: a row of the table \<^verbatim>\<open>user_preferences(user_id, categories,
  countries, language, sentiment, updated_at)\<close> of section 6.
\<close>

record preference_row =
  pref_user_id :: int
  pref_categories :: sqlval
  pref_countries :: sqlval
  pref_language :: sqlval
  pref_sentiment :: sqlval
  updated_at :: nat

text \<open>
  Modelled from the spec: a row of the table \<^verbatim>\<open>reading_history(user_id, article_url,
  title, category, read_timestamp)\<close> of section 6.
\<close>

record history_row =
  hist_user_id :: int
  hist_article_url :: sqlval
  hist_title :: sqlval
  hist_category :: sqlval
  read_timestamp :: nat

text \<open>
  Modelled from the spec: a row of the table \<^verbatim>\<open>article_cache(url, title, content,
  summary, sentiment, cached_at)\<close> of section 6.
\<close>

record cached_row =
  cached_url :: string
  cached_title :: sqlval
  cached_content :: sqlval
  cached_summary :: sqlval
  cached_sentiment :: sqlval
  cached_at :: nat

text \<open>
  Modelled from the spec: the persisted state, the five tables of section 6, and the clock
  of the database that stamps new rows, in seconds.
\<close>

record database =
  users :: "user_row list"
  article_feedback :: "feedback_row list"
  user_preferences :: "preference_row list"
  reading_history :: "history_row list"
  article_cache :: "cached_row list"
  current_timestamp :: nat

text \<open>The SQL statements of the operations below, with their parameters.\<close>

datatype statement =
    InsertUser string string
  | SelectUserId string
  | SelectUser string
  | SelectUserIdByPassword string string
  | SelectPreferences int
  | UpdatePreferences sqlval sqlval sqlval sqlval int
  | InsertHistory int sqlval sqlval sqlval
  | SelectHistory int int
  | InsertFeedback int string "string option" "int option"
  | SelectFeedbackAggregate string
  | ReplaceCachedArticle string sqlval sqlval sqlval sqlval
  | SelectCachedArticle string
  | DeleteOldCache

text \<open>The row identifier given to a new row: one more than the largest one in the table.\<close>

definition next_id :: "user_row list \<Rightarrow> int" where
  "next_id rows = fold max (map user_id rows) 0 + 1"

text \<open>
  The aggregate functions over the selected rows. \<^verbatim>\<open>AVG\<close> is over the ratings that are
  not null, and null when there is none. \<^verbatim>\<open>SUM\<close> is null when no row is selected.
\<close>

definition sql_avg :: "int option list \<Rightarrow> sqlval" where
  "sql_avg rs =
     (let xs = concat (map (\<lambda>r. case r of None \<Rightarrow> [] | Some x \<Rightarrow> [x]) rs)
      in if xs = [] then SNull else SReal (real_of_int (sum_list xs) / real (length xs)))"

definition sql_sum :: "int list \<Rightarrow> sqlval" where
  "sql_sum xs = (if xs = [] then SNull else SInt (sum_list xs))"

text \<open>
  Modelled from the spec: the execution of a statement by the database. Usernames are
  unique (section 4.4: a uniqueness violation on username); the insertion of a username
  that is already in the table raises the integrity error and changes nothing. An
  aggregate query without grouping returns exactly one row. The reading history comes
  newest first, cut at the limit unless the limit is negative. The article cache holds one
  row for a URL (section 3: cached by URL), and a row is valid for 24 hours, 86400 seconds.
\<close>

fun run_statement :: "statement \<Rightarrow> database \<Rightarrow> error + (sqlval list list \<times> database)" where
  "run_statement (InsertUser u p) db =
     (if u \<in> set (map username (users db)) then Inl IntegrityError
      else Inr ([], db\<lparr>users := users db @
             [\<lparr>user_id = next_id (users db), username = u, password = p,
               created_at = current_timestamp db\<rparr>]\<rparr>))"
| "run_statement (SelectUserId u) db =
     Inr (map (\<lambda>r. [SInt (user_id r)]) (filter (\<lambda>r. username r = u) (users db)), db)"
| "run_statement (SelectUser u) db =
     Inr (map (\<lambda>r. [SInt (user_id r), SText (username r), SInt (int (created_at r))])
            (filter (\<lambda>r. username r = u) (users db)), db)"
| "run_statement (SelectUserIdByPassword u p) db =
     Inr (map (\<lambda>r. [SInt (user_id r)])
            (filter (\<lambda>r. username r = u \<and> password r = p) (users db)), db)"
| "run_statement (SelectPreferences uid) db =
     Inr (map (\<lambda>r. [pref_categories r, pref_countries r, pref_language r, pref_sentiment r])
            (filter (\<lambda>r. pref_user_id r = uid) (user_preferences db)), db)"
| "run_statement (UpdatePreferences a b l s uid) db =
     Inr ([], db\<lparr>user_preferences :=
             map (\<lambda>r. if pref_user_id r = uid
                      then r\<lparr>pref_categories := a, pref_countries := b, pref_language := l,
                             pref_sentiment := s, updated_at := current_timestamp db\<rparr>
                      else r) (user_preferences db)\<rparr>)"
| "run_statement (InsertHistory uid url title category) db =
     Inr ([], db\<lparr>reading_history := reading_history db @
             [\<lparr>hist_user_id = uid, hist_article_url = url, hist_title = title,
               hist_category = category, read_timestamp = current_timestamp db\<rparr>]\<rparr>)"
| "run_statement (SelectHistory uid limit) db =
     (let rows = sort_key (\<lambda>r. - int (read_timestamp r))
                   (filter (\<lambda>r. hist_user_id r = uid) (reading_history db))
      in Inr (map (\<lambda>r. [hist_article_url r, hist_title r, hist_category r,
                         SInt (int (read_timestamp r))])
                (if limit < 0 then rows else take (nat limit) rows), db))"
| "run_statement (InsertFeedback uid url fb rt) db =
     Inr ([], db\<lparr>article_feedback := article_feedback db @
             [\<lparr>fb_user_id = uid, article_url = url, feedback = fb, rating = rt,
               fb_timestamp = current_timestamp db\<rparr>]\<rparr>)"
| "run_statement (SelectFeedbackAggregate url) db =
     (let rows = filter (\<lambda>r. article_url r = url) (article_feedback db)
      in Inr ([[SInt (int (length rows)),
                sql_avg (map rating rows),
                sql_sum (map (\<lambda>r. if feedback r = Some ''Helpful'' then 1 else 0) rows),
                sql_sum (map (\<lambda>r. if feedback r = Some ''Not Helpful'' then 1 else 0) rows)]],
              db))"
| "run_statement (ReplaceCachedArticle url title content summary sentiment) db =
     Inr ([], db\<lparr>article_cache := filter (\<lambda>r. cached_url r \<noteq> url) (article_cache db) @
             [\<lparr>cached_url = url, cached_title = title, cached_content = content,
               cached_summary = summary, cached_sentiment = sentiment,
               cached_at = current_timestamp db\<rparr>]\<rparr>)"
| "run_statement (SelectCachedArticle url) db =
     Inr (map (\<lambda>r. [cached_title r, cached_content r, cached_summary r, cached_sentiment r,
                      SInt (int (cached_at r))])
            (filter (\<lambda>r. cached_url r = url \<and> current_timestamp db < cached_at r + 86400)
               (article_cache db)), db)"
| "run_statement DeleteOldCache db =
     Inr ([], db\<lparr>article_cache :=
             filter (\<lambda>r. \<not> cached_at r + 86400 < current_timestamp db) (article_cache db)\<rparr>)"

text \<open>
  \<^verbatim>\<open>execute_query(self, query, params, fetch)\<close>. The flag \<open>fault\<close> says that the driver
  fails during the call. A \<^verbatim>\<open>sqlite3.Error\<close> is logged, the transaction is rolled back
  and the error is raised again: the result is \<open>Inl\<close> and the database is unchanged.
\<close>

definition execute_query ::
    "bool \<Rightarrow> statement \<Rightarrow> bool \<Rightarrow> database \<Rightarrow> (error + sqlval list list option) \<times> database" where
  "execute_query fault query fetch db =
     (if fault then (Inl OperationalError, db)
      else case run_statement query db of
             Inl e \<Rightarrow> (Inl e, db)
           | Inr (rows, db') \<Rightarrow> (Inr (if fetch then Some rows else None), db'))"

text \<open>
  \<^verbatim>\<open>create_user(self, username, password)\<close>. Only the integrity error is caught. The two
  flags are the faults of the driver during the first and the second query.
\<close>

definition create_user ::
    "bool \<Rightarrow> bool \<Rightarrow> string \<Rightarrow> string \<Rightarrow> database \<Rightarrow> (error + sqlval option) \<times> database" where
  "create_user fault1 fault2 u p db =
     (case execute_query fault1 (InsertUser u p) False db of
        (Inl IntegrityError, db1) \<Rightarrow> (Inr None, db1)
      | (Inl e, db1) \<Rightarrow> (Inl e, db1)
      | (Inr _, db1) \<Rightarrow>
          (case execute_query fault2 (SelectUserId u) True db1 of
             (Inl IntegrityError, db2) \<Rightarrow> (Inr None, db2)
           | (Inl e, db2) \<Rightarrow> (Inl e, db2)
           | (Inr result, db2) \<Rightarrow>
               (case result of
                  Some ((v # _) # _) \<Rightarrow> (Inr (Some v), db2)
                | Some ([] # _) \<Rightarrow> (Inl IndexError, db2)
                | _ \<Rightarrow> (Inr None, db2))))"



text \<open>Truth value of a column value, and \<^verbatim>\<open>float\<close> of a number.\<close>

fun sql_truthy :: "sqlval \<Rightarrow> bool" where
  "sql_truthy SNull = False"
| "sql_truthy (SInt i) = (i \<noteq> 0)"
| "sql_truthy (SReal r) = (r \<noteq> 0)"
| "sql_truthy (SText s) = (s \<noteq> [])"

fun sql_float :: "sqlval \<Rightarrow> sqlval" where
  "sql_float (SInt i) = SReal (real_of_int i)"
| "sql_float v = v"

record feedback_summary =
  total_feedback :: sqlval
  average_rating :: sqlval
  helpful_count :: sqlval
  not_helpful_count :: sqlval

text \<open>
  \<^verbatim>\<open>get_article_feedback(self, article_url)\<close>. \<open>SNull\<close> in a field of the result is
  Python's \<^verbatim>\<open>None\<close>. The dictionary of zeros is returned when the query gives no row.
\<close>

definition get_article_feedback ::
    "bool \<Rightarrow> string \<Rightarrow> database \<Rightarrow> (error + feedback_summary) \<times> database" where
  "get_article_feedback fault url db =
     (case execute_query fault (SelectFeedbackAggregate url) True db of
        (Inl e, db1) \<Rightarrow> (Inl e, db1)
      | (Inr result, db1) \<Rightarrow>
          (case result of
             Some ((a # b # c # d # _) # _) \<Rightarrow>
               (Inr \<lparr>total_feedback = a,
                     average_rating = (if sql_truthy b then sql_float b else SNull),
                     helpful_count = c,
                     not_helpful_count = d\<rparr>, db1)
           | Some (_ # _) \<Rightarrow> (Inl IndexError, db1)
           | _ \<Rightarrow>
               (Inr \<lparr>total_feedback = SInt 0, average_rating = SNull,
                     helpful_count = SInt 0, not_helpful_count = SInt 0\<rparr>, db1)))"

















section \<open>Analytics and reporting (analytics_utils.py)\<close>














section \<open>States of the NLP cache\<close>

text \<open>The three labels of \<^verbatim>\<open>analyze_sentiment\<close>.\<close>

definition labels :: "pyval set" where
  "labels = {PStr ''positive'', PStr ''neutral'', PStr ''negative''}"


text \<open>
  The module-level cache is written by the five cached operations of the processor only.
  The states it can be in are those reached from the empty cache by calls of these
  operations, at any times and on any arguments.
\<close>

inductive nlp_reachable :: "nlp_env \<Rightarrow> nlp_cache \<Rightarrow> bool" for env :: nlp_env where
  reach_initial: "nlp_reachable env cache"
| reach_sentiment: "nlp_reachable env c \<Longrightarrow>
    nlp_reachable env (snd (snd (analyze_sentiment env now c text)))"
| reach_keywords: "nlp_reachable env c \<Longrightarrow>
    nlp_reachable env (snd (extract_keywords env now c text top_n))"
| reach_entities: "nlp_reachable env c \<Longrightarrow>
    nlp_reachable env (snd (get_named_entities env now c text))"
| reach_summary: "nlp_reachable env c \<Longrightarrow>
    nlp_reachable env (snd (snd (summarize_article env now c url)))"
| reach_translation: "nlp_reachable env c \<Longrightarrow>
    nlp_reachable env (snd (translate_text env now c text target_lang))"

text \<open>Every entry stored under a sentiment key holds one of the three labels.\<close>

definition sentiment_ok :: "nlp_cache \<Rightarrow> bool" where
  "sentiment_ok c =
     (\<forall>e \<in> set (entries c). prefix ''sentiment_'' (fst e) \<longrightarrow> fst (snd e) \<in> labels)"


text \<open>The fields that \<^verbatim>\<open>enrich_articles\<close> writes.\<close>

definition enrichment_fields :: "string set" where
  "enrichment_fields = {''sentiment'', ''keywords'', ''named_entities'', ''summary''}"

text \<open>
  What \<^verbatim>\<open>enrich_articles\<close> does to one element of its input. A dictionary comes back
  as a dictionary that agrees with it outside the enrichment fields and holds, under
  \<^verbatim>\<open>sentiment\<close>, the label that \<^verbatim>\<open>analyze_sentiment\<close> gives, in some state of the
  cache, for the title and the description of the article. An element that is not a
  dictionary comes back as it is.
\<close>

definition enriched :: "nlp_env \<Rightarrow> nat \<Rightarrow> pyval \<Rightarrow> pyval \<Rightarrow> bool" where
  "enriched env now a a' =
     (case a of
        PDict d \<Rightarrow>
          (\<exists>d' c'. nlp_reachable env c' \<and> a' = PDict d'
             \<and> (\<forall>k. k \<notin> enrichment_fields \<longrightarrow> map_of d' k = map_of d k)
             \<and> map_of d' ''sentiment'' =
                 Some (fst (analyze_sentiment env now c' (Some (article_text env d))))
             \<and> fst (analyze_sentiment env now c' (Some (article_text env d))) \<in> labels)
      | _ \<Rightarrow> a' = a)"

section \<open>Example environments\<close>

text \<open>
  Concrete stand-ins for the external models, used to run the operations on explicit
  inputs: a hash (the length of the text), a polarity scorer that knows a few texts, a
  tokenizer that knows one text, a summarizer, a translator, a word cloud, a vectorizer
  that knows two pairs of texts, and a lowering of the ASCII letters.
\<close>

definition word :: "string \<Rightarrow> token" where
  "word w = \<lparr>token_text = w, is_stop = False, is_punct = False, is_alpha = True\<rparr>"

definition ascii_lower :: "string \<Rightarrow> string" where
  "ascii_lower s =
     map (\<lambda>ch. let n = (of_char ch :: nat) in if 65 \<le> n \<and> n \<le> 90 then char_of (n + 32) else ch) s"

text \<open>The double nearest to the square root of 3.\<close>

definition root_three :: double where
  "root_three = 3900231685776981 / 2251799813685248"

text \<open>
  The double nearest to the inverse of the square root of 3: the weight of each term in
  the normalised tf-idf row of a text of three distinct terms, when the other text has
  the same three terms.
\<close>

definition third_root_weight :: double where
  "third_root_weight = 5200308914369309 / 9007199254740992"

definition example_nlp :: nlp_env where
  "example_nlp =
     \<lparr>hash = (\<lambda>s. int (length s)),
      polarity = (\<lambda>s. if s = ''great news'' \<or> s = ''great news '' then Some 0.8
                       else if s = ''awful news'' then Some (- 0.6)
                       else if s = ''???'' then None
                       else Some 0),
      nlp = (\<lambda>s. if s = ''Apple pie, apple cake and the cherry''
                  then Some \<lparr>tokens =
                         [word ''Apple'', word ''pie'',
                          \<lparr>token_text = '','', is_stop = False, is_punct = True, is_alpha = False\<rparr>,
                          word ''apple'', word ''cake'',
                          \<lparr>token_text = ''and'', is_stop = True, is_punct = False, is_alpha = True\<rparr>,
                          \<lparr>token_text = ''the'', is_stop = True, is_punct = False, is_alpha = True\<rparr>,
                          word ''cherry''],
                        ents = []\<rparr>
                  else if s = ''???'' then None
                  else Some \<lparr>tokens = [], ents = []\<rparr>),
      article_summary = (\<lambda>u. if u = PStr ''http://example.org/a'' then Some ''A summary.'' else None),
      translate = (\<lambda>s lang. if s = ''great news'' \<and> lang = ''fr''
                             then Some ''bonnes nouvelles'' else None),
      wordcloud = (\<lambda>s. if s = ''???'' then None else Some (Chart ''word cloud'')),
      fit_transform = (\<lambda>a b. if a = ''apple banana cherry'' \<and> b = ''apple banana cherry''
                             then Some ([third_root_weight, third_root_weight, third_root_weight],
                                        [third_root_weight, third_root_weight, third_root_weight])
                             else if a = ''apple'' \<and> b = ''banana'' then Some ([1, 0], [0, 1])
                             else None),
      lower = ascii_lower,
      py_repr = (\<lambda>v. ''<object>'')\<rparr>"

definition empty_db :: database where
  "empty_db = \<lparr>users = [], article_feedback = [], user_preferences = [],
                reading_history = [], article_cache = [], current_timestamp = 0\<rparr>"

text \<open>
  A stand-in for the remote API. It answers the headlines of the country \<^verbatim>\<open>us\<close> with two
  articles, the second of which is not a dictionary, and those of the country \<^verbatim>\<open>gb\<close>
  with one article that has a URL. For the country \<^verbatim>\<open>xx\<close> the body is a JSON list, for
  the country \<^verbatim>\<open>zz\<close> the HTTP library raises an exception of its own, and every other
  request fails with a \<^verbatim>\<open>RequestException\<close>.
\<close>

definition example_response :: params where
  "example_response =
     [(''status'', PStr ''ok''),
      (''articles'', PList [PDict [(''title'', PStr ''great news''), (''source'', PStr ''wire'')],
                            PInt 3])]"

definition example_response_with_url :: params where
  "example_response_with_url =
     [(''status'', PStr ''ok''),
      (''articles'', PList [PDict [(''title'', PStr ''news''),
                                   (''url'', PStr ''http://example.org/a'')]])]"

definition example_api :: api_env where
  "example_api =
     \<lparr>api_key = ''key'',
      base_url = ''https://news.example/top-headlines'',
      http_get = (\<lambda>url ps.
         if url = ''https://news.example/top-headlines''
              \<and> map_of ps ''country'' = Some (PStr ''us'')
         then Json (PDict example_response)
         else if url = ''https://news.example/top-headlines''
              \<and> map_of ps ''country'' = Some (PStr ''gb'')
         then Json (PDict example_response_with_url)
         else if map_of ps ''country'' = Some (PStr ''xx'') then Json (PList [PInt 1, PInt 2])
         else if map_of ps ''country'' = Some (PStr ''zz'') then OtherFailure
         else RequestException),
      json_dumps = (\<lambda>ps. concat (map (\<lambda>e. fst e @ ''='' @
                      (case snd e of PStr s \<Rightarrow> s | PInt i \<Rightarrow> str_int i | _ \<Rightarrow> []) @ ''&'') ps)),
      isoformat = (\<lambda>d. str_nat d)\<rparr>"


section \<open>Properties of the cache\<close>


lemma find_entry_fst: "find_entry k es = Some e \<Longrightarrow> fst e = k \<and> e \<in> set es"
  by (induction es) (auto split: if_splits)

lemma find_entry_append_new:
  "k \<notin> set (map fst es) \<Longrightarrow> find_entry k (es @ [(k, v, t)]) = Some (k, v, t)"
  by (induction es) auto

lemma set_evict: "set (evict m es) \<subseteq> set es"
  by (induction es) auto

lemma length_evict: "length (evict m es) \<le> m"
  by (induction es) auto

lemma evict_keeps_last:
  "0 < m \<Longrightarrow> \<exists>ys. evict m (es @ [x]) = ys @ [x] \<and> set ys \<subseteq> set es"
proof (induction es)
  case Nil
  then show ?case by simp
next
  case (Cons e es)
  show ?case
  proof (cases "m < length (e # es @ [x])")
    case True
    with Cons obtain ys where "evict m (es @ [x]) = ys @ [x]" "set ys \<subseteq> set es" by auto
    with True show ?thesis by auto
  next
    case False
    then have "evict m ((e # es) @ [x]) = (e # es) @ [x]" by simp
    then show ?thesis by blast
  qed
qed

lemma ttl_cache_put [simp]: "ttl (cache_put c now k v) = ttl c"
  by (simp add: cache_put_def Let_def)

lemma maxsize_cache_put [simp]: "maxsize (cache_put c now k v) = maxsize c"
  by (simp add: cache_put_def Let_def)

lemma ttl_cache_touch [simp]: "ttl (cache_touch c k) = ttl c"
  by (simp add: cache_touch_def split: option.splits)

lemma maxsize_cache_touch [simp]: "maxsize (cache_touch c k) = maxsize c"
  by (simp add: cache_touch_def split: option.splits)

lemma find_entry_cache_put:
  assumes "0 < maxsize c"
  shows "find_entry k (entries (cache_put c now k v)) = Some (k, v, now)"
proof -
  let ?es = "filter (\<lambda>x. fst x \<noteq> k) (filter (live (ttl c) now) (entries c))"
  obtain ys where ys: "evict (maxsize c) (?es @ [(k, v, now)]) = ys @ [(k, v, now)]"
    and sub: "set ys \<subseteq> set ?es"
    using evict_keeps_last [OF assms, of ?es "(k, v, now)"] by blast
  have "k \<notin> set (map fst ys)" using sub by auto
  moreover have "entries (cache_put c now k v) = ys @ [(k, v, now)]"
    by (simp add: cache_put_def Let_def ys del: filter_filter)
  ultimately show ?thesis
    by (simp add: find_entry_append_new del: set_map)
qed

lemma cache_get_put_same:
  "0 < maxsize c
   \<Longrightarrow> cache_get (cache_put c now k v) t k = (if t < now + ttl c then Some v else None)"
  by (simp add: cache_get_def find_entry_cache_put live_def)

text \<open>The capacity bounds the number of entries after every insertion.\<close>

lemma length_cache_put: "length (entries (cache_put c now k v)) \<le> maxsize c"
  by (simp add: cache_put_def Let_def length_evict)

text \<open>
  Claim C7. A put of a value under a key, immediately followed by a get of the key,
  returns the value; the same holds at every later time before the time-to-live of the
  cache has elapsed. Once the time-to-live has elapsed since the insertion, the get
  reports a miss. The capacity and the time-to-live are positive, as they are for both
  instances (100 entries; 300 and 1800 seconds).
\<close>

theorem cache_round_trip:
  assumes "0 < maxsize c" and "0 < ttl c"
  shows "cache_get (cache_put c now k v) now k = Some v
    \<and> (\<forall>t. t < now + ttl c \<longrightarrow> cache_get (cache_put c now k v) t k = Some v)
    \<and> (\<forall>t. now + ttl c \<le> t \<longrightarrow> cache_get (cache_put c now k v) t k = None)"
  using assms by (simp add: cache_get_put_same)

theorem cache_round_trip_witness:
  "(0::nat) < maxsize (TTLCache 100 300 :: (string, string) ttl_cache)
   \<and> (0::nat) < ttl (TTLCache 100 300 :: (string, string) ttl_cache)
   \<and> cache_get (cache_put (TTLCache 100 300) 7 ''k'' ''v'') 7 ''k'' = Some ''v''
   \<and> cache_get (cache_put (TTLCache 100 300) 7 ''k'' ''v'') 306 ''k'' = Some ''v''
   \<and> cache_get (cache_put (TTLCache 100 300) 7 ''k'' ''v'') 307 ''k'' = None"
proof -
  have m: "(0::nat) < maxsize (TTLCache 100 300 :: (string, string) ttl_cache)"
    by (simp add: TTLCache_def)
  have h: "(0::nat) < ttl (TTLCache 100 300 :: (string, string) ttl_cache)"
    by (simp add: TTLCache_def)
  have ttl: "ttl (TTLCache 100 300 :: (string, string) ttl_cache) = 300"
    by (simp add: TTLCache_def)
  show ?thesis
    using m h cache_round_trip [OF m h, of 7 "''k''" "''v''"] by (simp add: ttl)
qed

section \<open>The cache of the NLP processor holds labels under sentiment keys\<close>

lemma set_entries_cache_put:
  "set (entries (cache_put c now k v)) \<subseteq> insert (k, v, now) (set (entries c))"
  using set_evict [of "maxsize c"
      "filter (\<lambda>x. fst x \<noteq> k) (filter (live (ttl c) now) (entries c)) @ [(k, v, now)]"]
  by (auto simp: cache_put_def Let_def)

lemma set_entries_cache_touch: "set (entries (cache_touch c k)) \<subseteq> set (entries c)"
  by (auto simp: cache_touch_def split: option.splits dest: find_entry_fst)

lemma cache_get_in_entries:
  "cache_get c now k = Some v \<Longrightarrow> \<exists>t. (k, v, t) \<in> set (entries c)"
  by (auto simp: cache_get_def split: option.splits if_splits dest!: find_entry_fst)

lemma sentiment_ok_put:
  "sentiment_ok c \<Longrightarrow> (prefix ''sentiment_'' k \<longrightarrow> v \<in> labels) \<Longrightarrow> sentiment_ok (cache_put c now k v)"
  using set_entries_cache_put [of c now k v] by (fastforce simp: sentiment_ok_def)

lemma sentiment_ok_touch: "sentiment_ok c \<Longrightarrow> sentiment_ok (cache_touch c k)"
  using set_entries_cache_touch [of c k] by (fastforce simp: sentiment_ok_def)

lemma sentiment_ok_get:
  "sentiment_ok c \<Longrightarrow> cache_get c now k = Some v \<Longrightarrow> prefix ''sentiment_'' k \<Longrightarrow> v \<in> labels"
  by (fastforce simp: sentiment_ok_def dest: cache_get_in_entries)

lemma sentiment_ok_initial: "sentiment_ok cache"
  by (simp add: sentiment_ok_def cache_def TTLCache_def)

lemma sentiment_ok_analyze:
  "sentiment_ok c \<Longrightarrow> sentiment_ok (snd (snd (analyze_sentiment env now c text)))"
  by (auto simp: analyze_sentiment_def Let_def labels_def
      intro!: sentiment_ok_put sentiment_ok_touch split: option.splits)

lemma sentiment_ok_keywords:
  "sentiment_ok c \<Longrightarrow> sentiment_ok (snd (extract_keywords env now c text top_n))"
  by (auto simp: extract_keywords_def Let_def
      intro!: sentiment_ok_put sentiment_ok_touch split: option.splits)

lemma sentiment_ok_entities:
  "sentiment_ok c \<Longrightarrow> sentiment_ok (snd (get_named_entities env now c text))"
  by (auto simp: get_named_entities_def Let_def
      intro!: sentiment_ok_put sentiment_ok_touch split: option.splits)

lemma sentiment_ok_summary:
  "sentiment_ok c \<Longrightarrow> sentiment_ok (snd (snd (summarize_article env now c url)))"
  by (auto simp: summarize_article_def Let_def
      intro!: sentiment_ok_put sentiment_ok_touch split: option.splits)

lemma sentiment_ok_translation:
  "sentiment_ok c \<Longrightarrow> sentiment_ok (snd (translate_text env now c text target_lang))"
  by (auto simp: translate_text_def Let_def
      intro!: sentiment_ok_put sentiment_ok_touch split: option.splits)

lemma nlp_reachable_ok: "nlp_reachable env c \<Longrightarrow> sentiment_ok c"
  by (induction rule: nlp_reachable.induct)
     (simp_all add: sentiment_ok_initial sentiment_ok_analyze sentiment_ok_keywords
        sentiment_ok_entities sentiment_ok_summary sentiment_ok_translation)


section \<open>Decimal notation is injective\<close>







section \<open>The cache of the NLP processor holds the labels of scores\<close>














section \<open>Sentiment labels\<close>

lemma analyze_sentiment_in_labels:
  assumes "nlp_reachable env c"
  shows "fst (analyze_sentiment env now c text) \<in> labels"
proof -
  have ok: "sentiment_ok c" using assms by (rule nlp_reachable_ok)
  have hit: "v \<in> labels"
    if "cache_get c now (''sentiment_'' @ str_int (hash env t)) = Some v" for t v
    using sentiment_ok_get [OF ok that] by simp
  show ?thesis
  proof (cases "text")
    case None
    then show ?thesis by (simp add: analyze_sentiment_def labels_def)
  next
    case (Some t)
    show ?thesis
    proof (cases "cache_get c now (''sentiment_'' @ str_int (hash env t))")
      case None
      with Some show ?thesis
        by (simp add: analyze_sentiment_def Let_def labels_def split: option.splits)
    next
      case (Some v)
      with \<open>text = Some t\<close> hit [OF Some] show ?thesis
        by (simp add: analyze_sentiment_def Let_def labels_def)
    qed
  qed
qed








section \<open>Keywords\<close>

lemma count_add_invariant:
  "\<forall>e \<in> set c. 1 \<le> snd e \<and> fst e \<in> A \<Longrightarrow> w \<in> A
   \<Longrightarrow> \<forall>e \<in> set (count_add w c). 1 \<le> snd e \<and> fst e \<in> A"
  by (induction w c rule: count_add.induct) auto

lemma foldl_count_add_invariant:
  "\<forall>e \<in> set c. 1 \<le> snd e \<and> fst e \<in> A \<Longrightarrow> set ws \<subseteq> A
   \<Longrightarrow> \<forall>e \<in> set (foldl (\<lambda>c w. count_add w c) c ws). 1 \<le> snd e \<and> fst e \<in> A"
proof (induction ws arbitrary: c)
  case Nil
  then show ?case by simp
next
  case (Cons w ws)
  have step: "\<forall>e \<in> set (count_add w c). 1 \<le> snd e \<and> fst e \<in> A"
    using Cons.prems by (intro count_add_invariant) auto
  have rest: "set ws \<subseteq> A" using Cons.prems by simp
  show ?case using Cons.IH [OF step rest] by simp
qed

lemma Counter_entries: "e \<in> set (Counter ws) \<Longrightarrow> 1 \<le> snd e \<and> fst e \<in> set ws"
  using foldl_count_add_invariant [of "[]" "set ws" ws] by (simp add: Counter_def)

lemma most_common_length: "length (most_common n c) \<le> nat n"
  by (simp add: most_common_def)

lemma most_common_subset: "set (most_common n c) \<subseteq> set c"
  using set_take_subset [of "nat n" "sort_key (\<lambda>e. - int (snd e)) c"]
  by (auto simp: most_common_def)

lemma most_common_sorted: "sorted_wrt (\<lambda>a b. snd b \<le> snd a) (most_common n c)"
proof -
  have "sorted (map (\<lambda>e. - int (snd e)) (sort_key (\<lambda>e. - int (snd e)) c))"
    by (rule sorted_sort_key)
  then have "sorted_wrt (\<lambda>a b. snd b \<le> snd a) (sort_key (\<lambda>e. - int (snd e)) c)"
    by (simp add: sorted_map)
  then show ?thesis
    by (simp add: most_common_def)
qed

text \<open>
  A call of \<^verbatim>\<open>extract_keywords\<close> that finds no live entry under the key of the text and
  gets the tokens from the tokenizer returns at most \<open>top_n\<close> entries (none for a negative
  \<open>top_n\<close>), each with a count of at least one, sorted by count in descending order, each
  term among the lowercased tokens that are alphabetic and neither stopwords nor
  punctuation.
\<close>

lemma extract_keywords_fresh:
  assumes "t \<noteq> []"
    and "cache_get c now (''keywords_'' @ str_int (hash env t)) = None"
    and "nlp env t = Some d"
  shows "\<exists>kws. fst (extract_keywords env now c (Some t) top_n) = py_counts kws
    \<and> length kws \<le> nat top_n
    \<and> (\<forall>e \<in> set kws. 1 \<le> snd e \<and> fst e \<in> set (keyword_tokens env d))
    \<and> sorted_wrt (\<lambda>a b. snd b \<le> snd a) kws"
proof -
  let ?kws = "most_common top_n (Counter (keyword_tokens env d))"
  have "fst (extract_keywords env now c (Some t) top_n) = py_counts ?kws"
    using assms by (simp add: extract_keywords_def Let_def)
  moreover have "length ?kws \<le> nat top_n" by (rule most_common_length)
  moreover have "\<forall>e \<in> set ?kws. 1 \<le> snd e \<and> fst e \<in> set (keyword_tokens env d)"
    using most_common_subset [of top_n "Counter (keyword_tokens env d)"] Counter_entries by blast
  moreover have "sorted_wrt (\<lambda>a b. snd b \<le> snd a) ?kws" by (rule most_common_sorted)
  ultimately show ?thesis by blast
qed

text \<open>
  A call that finds a live entry under the key of the text returns the cached list,
  whatever \<open>top_n\<close> is: the key is built from the hash of the text alone.
\<close>

lemma extract_keywords_cached:
  assumes "t \<noteq> []"
    and "cache_get c now (''keywords_'' @ str_int (hash env t)) = Some v"
  shows "fst (extract_keywords env now c (Some t) top_n) = v"
  using assms by (simp add: extract_keywords_def Let_def)

text \<open>
  Claim C2: \<^verbatim>\<open>extract_keywords(text, n)\<close> returns at most \<open>n\<close> entries, each with a
  count of at least one, sorted by count in descending order, each term among the
  filtered tokens of the text. The code breaks the bound on the number of entries. On the
  empty cache, a call with \<open>top_n = 10\<close> on a text with four keywords stores the four
  entries; a call on the same text with \<open>top_n = 2\<close>, five seconds later, returns the
  four cached entries.
\<close>

theorem extract_keywords_cached_ignores_top_n:
  "fst (extract_keywords example_nlp 5
         (snd (extract_keywords example_nlp 0 cache
                 (Some ''Apple pie, apple cake and the cherry'') 10))
         (Some ''Apple pie, apple cake and the cherry'') 2) =
   PList [PTuple [PStr ''apple'', PInt 2], PTuple [PStr ''pie'', PInt 1],
          PTuple [PStr ''cake'', PInt 1], PTuple [PStr ''cherry'', PInt 1]]"
  by code_simp

section \<open>The persistence store\<close>






text \<open>
  For an article without feedback rows the aggregate query gives one row: the count is
  zero, the average and the two sums are null. The row makes the result of the query
  true, so the dictionary is built from the row.
\<close>

lemma get_article_feedback_without_rows:
  assumes "\<forall>r \<in> set (article_feedback db). article_url r \<noteq> url"
  shows "get_article_feedback False url db =
    (Inr \<lparr>total_feedback = SInt 0, average_rating = SNull,
           helpful_count = SNull, not_helpful_count = SNull\<rparr>, db)"
proof -
  have "filter (\<lambda>r. article_url r = url) (article_feedback db) = []"
    using assms by (simp add: filter_empty_conv)
  then show ?thesis
    by (simp add: get_article_feedback_def execute_query_def sql_avg_def sql_sum_def)
qed

text \<open>
  Claim C5: for an article without feedback rows \<^verbatim>\<open>get_article_feedback\<close> returns the
  total 0, no average rating, and the helpful and not-helpful counts 0. The code returns
  something else: on a database without feedback rows the total is 0 and the average is
  \<^verbatim>\<open>None\<close>, but the two counts are \<^verbatim>\<open>None\<close> as well, not 0.
\<close>

theorem get_article_feedback_no_rows:
  "fst (get_article_feedback False ''http://example.org/a'' empty_db) =
   Inr \<lparr>total_feedback = SInt 0, average_rating = SNull,
         helpful_count = SNull, not_helpful_count = SNull\<rparr>"
  by (simp add: get_article_feedback_without_rows empty_db_def)

lemma create_user_inserted:
  "u \<in> set (map username (users (snd (create_user False fault2 u pw db))))"
  by (auto simp: create_user_def execute_query_def
      split: sum.splits error.splits option.splits list.splits)

text \<open>
  Claim C6. After a call of \<^verbatim>\<open>create_user\<close> for a username, a second call for the same
  username, with any password, returns no identifier and does not raise, and it leaves
  the database, and so the row of the first user, as it was. The driver does not fail
  during the two insertions.
\<close>

theorem create_user_duplicate:
  "create_user False fault u pw2 (snd (create_user False fault2 u pw db)) =
     (Inr None, snd (create_user False fault2 u pw db))"
  using create_user_inserted [of u fault2 pw db]
  by (simp add: create_user_def [of False fault u pw2] execute_query_def)

theorem create_user_duplicate_witness:
  "create_user False False ''alice'' ''pw'' empty_db =
     (Inr (Some (SInt 1)),
      \<lparr>users = [\<lparr>user_id = 1, username = ''alice'', password = ''pw'', created_at = 0\<rparr>],
       article_feedback = [], user_preferences = [],
       reading_history = [], article_cache = [], current_timestamp = 0\<rparr>)
   \<and> create_user False False ''alice'' ''pw2''
       \<lparr>users = [\<lparr>user_id = 1, username = ''alice'', password = ''pw'', created_at = 0\<rparr>],
        article_feedback = [], user_preferences = [],
       reading_history = [], article_cache = [], current_timestamp = 0\<rparr> =
     (Inr None,
      \<lparr>users = [\<lparr>user_id = 1, username = ''alice'', password = ''pw'', created_at = 0\<rparr>],
       article_feedback = [], user_preferences = [],
       reading_history = [], article_cache = [], current_timestamp = 0\<rparr>)"
proof -
  have first: "create_user False False ''alice'' ''pw'' empty_db =
     (Inr (Some (SInt 1)),
      \<lparr>users = [\<lparr>user_id = 1, username = ''alice'', password = ''pw'', created_at = 0\<rparr>],
       article_feedback = [], user_preferences = [],
       reading_history = [], article_cache = [], current_timestamp = 0\<rparr>)"
    by (simp add: create_user_def execute_query_def empty_db_def next_id_def)
  show ?thesis
    using first create_user_duplicate [of False "''alice''" "''pw2''" False "''pw''" empty_db]
    by simp
qed

section \<open>Requests of the news source client\<close>



lemma requests_enrich_response [simp]:
  "requests (enrich_response nenv now c k r) = fst (snd r)"
  by (simp add: enrich_response_def Let_def split: option.splits sum.splits)

lemma requests_make_request:
  "set (fst (snd (make_request env now nc ep ps)))
     \<subseteq> {(base_url env @ ep, request_params env ps)}"
  by (simp add: make_request_def Let_def split: option.splits http_reply.splits pyval.splits)

lemma map_of_request_params:
  "k \<noteq> ''apiKey'' \<Longrightarrow> map_of (request_params env ps) k = map_of ps k"
  by (simp add: request_params_def update_conv')

lemma map_of_add_filter: "k \<noteq> name \<Longrightarrow> map_of (add_filter name v ps) k = map_of ps k"
  by (simp add: add_filter_def update_conv' split: option.splits)

lemma map_of_add_date: "k \<noteq> name \<Longrightarrow> map_of (add_date env name v ps) k = map_of ps k"
  by (simp add: add_date_def update_conv' split: option.splits)

lemma headline_params_paging:
  "map_of (headline_params country category q page_size page) ''pageSize''
     = Some (PInt (min page_size 100))"
  "map_of (headline_params country category q page_size page) ''page'' = Some (PInt page)"
  by (simp_all add: headline_params_def map_of_add_filter)

lemma search_params_paging:
  "map_of (search_params env q from_date to_date language sort_by page_size page) ''pageSize''
     = Some (PInt (min page_size 100))"
  "map_of (search_params env q from_date to_date language sort_by page_size page) ''page''
     = Some (PInt page)"
  by (simp_all add: search_params_def map_of_add_date)

text \<open>
  Claim C10. Every request that \<^verbatim>\<open>get_top_headlines\<close> and \<^verbatim>\<open>search_everything\<close> send
  carries the parameter \<^verbatim>\<open>pageSize\<close> with the value \<open>min page_size 100\<close>, which is at
  most 100, and the parameter \<^verbatim>\<open>page\<close> with the page number as it was given.
\<close>

theorem page_size_clamped:
  "(\<forall>req \<in> set (requests (get_top_headlines env nenv now nc c country category q page_size page)).
      map_of (snd req) ''pageSize'' = Some (PInt (min page_size 100))
      \<and> map_of (snd req) ''page'' = Some (PInt page))
   \<and> (\<forall>req \<in> set (requests (search_everything env nenv now nc c query from_date to_date
                                language sort_by page_size page)).
      map_of (snd req) ''pageSize'' = Some (PInt (min page_size 100))
      \<and> map_of (snd req) ''page'' = Some (PInt page))
   \<and> min page_size 100 \<le> 100"
proof -
  have a: "map_of (snd req) ''pageSize'' = Some (PInt (min page_size 100))
      \<and> map_of (snd req) ''page'' = Some (PInt page)"
    if "req \<in> set (requests (get_top_headlines env nenv now nc c country category q page_size page))"
    for req
  proof -
    let ?ps = "headline_params country category q page_size page"
    have "req = (base_url env @ [], request_params env ?ps)"
      using that requests_make_request [of env now nc "[]" ?ps]
      by (auto simp: get_top_headlines_def Let_def)
    then show ?thesis
      by (simp add: map_of_request_params headline_params_paging)
  qed
  have b: "map_of (snd req) ''pageSize'' = Some (PInt (min page_size 100))
      \<and> map_of (snd req) ''page'' = Some (PInt page)"
    if "req \<in> set (requests (search_everything env nenv now nc c query from_date to_date
                                language sort_by page_size page))"
    for req
  proof -
    let ?ps = "search_params env query from_date to_date language sort_by page_size page"
    have "req = (base_url env @ ''/everything'', request_params env ?ps)"
      using that requests_make_request [of env now nc "''/everything''" ?ps]
      by (auto simp: search_everything_def Let_def)
    then show ?thesis
      by (simp add: map_of_request_params search_params_paging)
  qed
  from a b show ?thesis by simp
qed

theorem page_size_clamped_witness:
  "requests (get_top_headlines example_api example_nlp 0 news_cache cache
               (Some ''us'') None None 250 3) =
     [(''https://news.example/top-headlines'',
       [(''pageSize'', PInt 100), (''page'', PInt 3), (''country'', PStr ''us''),
        (''apiKey'', PStr ''key'')])]
   \<and> map_of (snd (hd (requests (get_top_headlines example_api example_nlp 0 news_cache cache
               (Some ''us'') None None 250 3)))) ''pageSize'' = Some (PInt 100)
   \<and> map_of (snd (hd (requests (get_top_headlines example_api example_nlp 0 news_cache cache
               (Some ''us'') None None 250 3)))) ''page'' = Some (PInt 3)
   \<and> requests (search_everything example_api example_nlp 0 news_cache cache
               ''bitcoin'' None None ''en'' ''publishedAt'' 20 7) =
     [(''https://news.example/top-headlines/everything'',
       [(''q'', PStr ''bitcoin''), (''language'', PStr ''en''), (''sortBy'', PStr ''publishedAt''),
        (''pageSize'', PInt 20), (''page'', PInt 7), (''apiKey'', PStr ''key'')])]
   \<and> map_of (snd (hd (requests (search_everything example_api example_nlp 0 news_cache cache
               ''bitcoin'' None None ''en'' ''publishedAt'' 20 7)))) ''pageSize'' = Some (PInt 20)
   \<and> map_of (snd (hd (requests (search_everything example_api example_nlp 0 news_cache cache
               ''bitcoin'' None None ''en'' ''publishedAt'' 20 7)))) ''page'' = Some (PInt 7)"
proof -
  let ?h = "requests (get_top_headlines example_api example_nlp 0 news_cache cache
               (Some ''us'') None None 250 3)"
  let ?s = "requests (search_everything example_api example_nlp 0 news_cache cache
               ''bitcoin'' None None ''en'' ''publishedAt'' 20 7)"
  have a: "?h =
     [(''https://news.example/top-headlines'',
       [(''pageSize'', PInt 100), (''page'', PInt 3), (''country'', PStr ''us''),
        (''apiKey'', PStr ''key'')])]"
    by code_simp
  have b: "?s =
     [(''https://news.example/top-headlines/everything'',
       [(''q'', PStr ''bitcoin''), (''language'', PStr ''en''), (''sortBy'', PStr ''publishedAt''),
        (''pageSize'', PInt 20), (''page'', PInt 7), (''apiKey'', PStr ''key'')])]"
    by code_simp
  have ha: "hd ?h \<in> set ?h" by (simp add: a)
  have hb: "hd ?s \<in> set ?s" by (simp add: b)
  have c: "min (250::int) 100 = 100" "min (20::int) 100 = 20" by simp_all
  have "map_of (snd (hd ?h)) ''pageSize'' = Some (PInt 100)
      \<and> map_of (snd (hd ?h)) ''page'' = Some (PInt 3)"
    using ha page_size_clamped [of example_api example_nlp 0 news_cache cache
        "Some ''us''" None None 250 3 "''bitcoin''" None None "''en''" "''publishedAt''"]
    unfolding c by blast
  moreover have "map_of (snd (hd ?s)) ''pageSize'' = Some (PInt 20)
      \<and> map_of (snd (hd ?s)) ''page'' = Some (PInt 7)"
    using hb page_size_clamped [of example_api example_nlp 0 news_cache cache
        None None None 20 7 "''bitcoin''" None None "''en''" "''publishedAt''"]
    unfolding c by blast
  ultimately show ?thesis using a b by blast
qed

section \<open>The response cache\<close>























section \<open>Rounding to a double\<close>

lemma pow2_powi: "pow2 e = 2 powi e"
  by (simp add: pow2_def power_int_def field_simps)


lemma pow2_add: "pow2 (a + b) = pow2 a * pow2 b"
  by (simp add: pow2_powi power_int_add)
















section \<open>Text similarity\<close>

text \<open>
  The weights of the example. The tf-idf row of a text of three distinct terms, each with
  the weight 1 before the normalisation, has the sum of squares 3. \<open>root_three\<close> is the
  double nearest to its square root, and the normalised weight is the rounded quotient.
\<close>

lemma root_three_nearest:
  "(root_three - 1 / 2 ^ 53) ^ 2 < 3 \<and> 3 < (root_three + 1 / 2 ^ 53) ^ 2
   \<and> fl root_three = root_three"
  by code_simp

lemma third_root_weight_rounded: "fl (1 / root_three) = third_root_weight"
  by code_simp




section \<open>Enrichment\<close>

lemma article_text_without_description:
  "map_of d ''description'' = None
   \<Longrightarrow> article_text env d = py_format env (dict_get d ''title'' (PStr [])) @ '' ''"
  by (simp add: article_text_def dict_get_def py_format_def)

lemma enrich_article_not_dict: "\<forall>d. a \<noteq> PDict d \<Longrightarrow> enrich_article env now c a = (a, [], c)"
  by (cases a) (simp_all add: enrich_article_def)

lemma enrich_article_reachable:
  assumes "nlp_reachable env c"
  shows "nlp_reachable env (snd (snd (enrich_article env now c a)))"
proof (cases "\<exists>d. a = PDict d")
  case False
  then show ?thesis using assms by (simp add: enrich_article_not_dict)
next
  case True
  then obtain d where a: "a = PDict d" by blast
  let ?t = "Some (article_text env d)"
  let ?c1 = "snd (snd (analyze_sentiment env now c ?t))"
  let ?c2 = "snd (extract_keywords env now ?c1 ?t 5)"
  let ?c3 = "snd (get_named_entities env now ?c2 ?t)"
  have r3: "nlp_reachable env ?c3"
    by (intro reach_entities reach_keywords reach_sentiment assms)
  have r4: "nlp_reachable env (snd (snd (summarize_article env now ?c3 url)))" for url
    by (intro reach_summary r3)
  show ?thesis
    using r3 r4 by (simp add: a enrich_article_def Let_def)
qed

lemma enrich_article_enriched:
  assumes "nlp_reachable env c"
  shows "enriched env now a (fst (enrich_article env now c a))"
proof (cases "\<exists>d. a = PDict d")
  case False
  then show ?thesis
    by (cases a) (simp_all add: enriched_def enrich_article_def)
next
  case True
  then obtain d where a: "a = PDict d" by blast
  let ?s = "fst (analyze_sentiment env now c (Some (article_text env d)))"
  have "\<exists>d'. fst (enrich_article env now c a) = PDict d'
      \<and> (\<forall>k. k \<notin> enrichment_fields \<longrightarrow> map_of d' k = map_of d k)
      \<and> map_of d' ''sentiment'' = Some ?s"
    by (simp add: a enrich_article_def Let_def update_conv' enrichment_fields_def)
  then obtain d' where d': "fst (enrich_article env now c a) = PDict d'"
    and keep: "\<forall>k. k \<notin> enrichment_fields \<longrightarrow> map_of d' k = map_of d k"
    and sent: "map_of d' ''sentiment'' = Some ?s"
    by blast
  have lab: "?s \<in> labels"
    using assms by (rule analyze_sentiment_in_labels)
  show ?thesis
    unfolding enriched_def a pyval.case
    using assms keep sent lab d' [unfolded a] by blast
qed

lemma enrich_articles_all2:
  assumes "nlp_reachable env c"
  shows "list_all2 (enriched env now) arts (fst (enrich_articles env now c arts))"
  using assms
proof (induction arts arbitrary: c)
  case Nil
  then show ?case by simp
next
  case (Cons a arts)
  have "nlp_reachable env (snd (snd (enrich_article env now c a)))"
    using Cons.prems by (rule enrich_article_reachable)
  then have "list_all2 (enriched env now) arts
      (fst (enrich_articles env now (snd (snd (enrich_article env now c a))) arts))"
    by (rule Cons.IH)
  then show ?case
    using enrich_article_enriched [OF Cons.prems, of now a] by (simp add: Let_def)
qed

text \<open>
  Claim C3. In every state of the cache that the processor can reach,
  \<^verbatim>\<open>enrich_articles\<close> returns a list with one element for each input article, in the
  same order. An element whose enrichment fails (it is not a dictionary, so the read of
  its title raises) comes back unchanged. A dictionary comes back with the fields it had,
  apart from the four enrichment fields, and with a sentiment that is one of the three
  labels: the result of \<^verbatim>\<open>analyze_sentiment\<close> on the title and the description. When
  the description is missing this text is the title followed by a space, and no
  exception is raised.
\<close>

theorem enrich_articles_keeps_every_article:
  assumes "nlp_reachable env c"
  shows "length (fst (enrich_articles env now c arts)) = length arts
    \<and> (\<forall>i < length arts.
         (\<forall>d. arts ! i = PDict d \<longrightarrow>
            (\<exists>d' c'. nlp_reachable env c'
               \<and> fst (enrich_articles env now c arts) ! i = PDict d'
               \<and> (\<forall>k. k \<notin> enrichment_fields \<longrightarrow> map_of d' k = map_of d k)
               \<and> map_of d' ''sentiment'' =
                   Some (fst (analyze_sentiment env now c' (Some (article_text env d))))
               \<and> fst (analyze_sentiment env now c' (Some (article_text env d))) \<in> labels
               \<and> (map_of d ''description'' = None \<longrightarrow>
                    article_text env d
                      = py_format env (dict_get d ''title'' (PStr [])) @ '' '')))
         \<and> ((\<forall>d. arts ! i \<noteq> PDict d) \<longrightarrow>
                fst (enrich_articles env now c arts) ! i = arts ! i))"
proof -
  let ?out = "fst (enrich_articles env now c arts)"
  have all2: "list_all2 (enriched env now) arts ?out"
    using assms by (rule enrich_articles_all2)
  then have len: "length ?out = length arts"
    by (simp add: list_all2_lengthD)
  have each: "enriched env now (arts ! i) (?out ! i)" if "i < length arts" for i
    using all2 that by (rule list_all2_nthD)
  have dict: "\<exists>d' c'. nlp_reachable env c' \<and> ?out ! i = PDict d'
               \<and> (\<forall>k. k \<notin> enrichment_fields \<longrightarrow> map_of d' k = map_of d k)
               \<and> map_of d' ''sentiment'' =
                   Some (fst (analyze_sentiment env now c' (Some (article_text env d))))
               \<and> fst (analyze_sentiment env now c' (Some (article_text env d))) \<in> labels
               \<and> (map_of d ''description'' = None \<longrightarrow>
                    article_text env d
                      = py_format env (dict_get d ''title'' (PStr [])) @ '' '')"
    if lt: "i < length arts" and ad: "arts ! i = PDict d" for i d
  proof -
    from each [OF lt] obtain d' c' where w: "nlp_reachable env c'" "?out ! i = PDict d'"
      "\<forall>k. k \<notin> enrichment_fields \<longrightarrow> map_of d' k = map_of d k"
      "map_of d' ''sentiment'' =
         Some (fst (analyze_sentiment env now c' (Some (article_text env d))))"
      "fst (analyze_sentiment env now c' (Some (article_text env d))) \<in> labels"
      unfolding enriched_def ad pyval.case by blast
    show ?thesis
      using w article_text_without_description [of d env]
      by (intro exI [of _ d'] exI [of _ c']) simp
  qed
  have other: "?out ! i = arts ! i" if "i < length arts" "\<forall>d. arts ! i \<noteq> PDict d" for i
    using each [OF that(1)] that(2) by (cases "arts ! i") (simp_all add: enriched_def)
  from len dict other show ?thesis by blast
qed

theorem enrich_articles_keeps_every_article_witness:
  "nlp_reachable example_nlp cache
   \<and> fst (enrich_articles example_nlp 0 cache
        [PDict [(''title'', PStr ''great news''), (''source'', PStr ''wire'')], PInt 3]) =
      [PDict [(''title'', PStr ''great news''), (''source'', PStr ''wire''),
              (''sentiment'', PStr ''positive''), (''keywords'', PList []),
              (''named_entities'', PList [])],
       PInt 3]
   \<and> article_text example_nlp [(''title'', PStr ''great news''), (''source'', PStr ''wire'')]
        = ''great news ''
   \<and> (\<exists>d' c'. nlp_reachable example_nlp c'
        \<and> fst (enrich_articles example_nlp 0 cache
             [PDict [(''title'', PStr ''great news''), (''source'', PStr ''wire'')], PInt 3]) ! 0
            = PDict d'
        \<and> map_of d' ''source'' = Some (PStr ''wire'')
        \<and> map_of d' ''sentiment'' = Some (fst (analyze_sentiment example_nlp 0 c'
             (Some ''great news '')))
        \<and> fst (analyze_sentiment example_nlp 0 c' (Some ''great news '')) \<in> labels)"
proof -
  let ?d = "[(''title'', PStr ''great news''), (''source'', PStr ''wire'')]"
  let ?arts = "[PDict ?d, PInt 3]"
  have r: "nlp_reachable example_nlp cache" by (rule reach_initial)
  have ev: "fst (enrich_articles example_nlp 0 cache ?arts) =
      [PDict [(''title'', PStr ''great news''), (''source'', PStr ''wire''),
              (''sentiment'', PStr ''positive''), (''keywords'', PList []),
              (''named_entities'', PList [])],
       PInt 3]"
    by code_simp
  have nd: "map_of ?d ''description'' = None" by simp
  have tt: "py_format example_nlp (dict_get ?d ''title'' (PStr [])) @ '' '' = ''great news ''"
    by (simp add: py_format_def dict_get_def)
  have src: "''source'' \<notin> enrichment_fields" by (simp add: enrichment_fields_def)
  have i0: "(0::nat) < length ?arts" and a0: "?arts ! 0 = PDict ?d" by simp_all
  from enrich_articles_keeps_every_article [OF r, of 0 ?arts] i0 a0
  obtain d' c' where w: "nlp_reachable example_nlp c'"
      "fst (enrich_articles example_nlp 0 cache ?arts) ! 0 = PDict d'"
      "\<forall>k. k \<notin> enrichment_fields \<longrightarrow> map_of d' k = map_of ?d k"
      "map_of d' ''sentiment'' =
         Some (fst (analyze_sentiment example_nlp 0 c' (Some (article_text example_nlp ?d))))"
      "fst (analyze_sentiment example_nlp 0 c' (Some (article_text example_nlp ?d))) \<in> labels"
      "map_of ?d ''description'' = None \<longrightarrow>
         article_text example_nlp ?d
           = py_format example_nlp (dict_get ?d ''title'' (PStr [])) @ '' ''"
    by blast
  have atext: "article_text example_nlp ?d = ''great news ''"
    using w(6) nd tt by simp
  have s: "map_of d' ''source'' = Some (PStr ''wire'')"
    using w(3) src by simp
  show ?thesis
    using r ev atext w(1,2) w(4,5) [unfolded atext] s by blast
qed

section \<open>External failures\<close>

subsection \<open>The NLP processor\<close>








subsection \<open>The news source client\<close>













subsection \<open>The persistence store\<close>










subsection \<open>Analytics\<close>















subsection \<open>Exceptions that reach the caller\<close>
















end
